theory Spec2Isabelle
  imports Main "HOL-Library.Word"
begin

section \<open>Native bootstrap (src/Native/Bootstrap/main.cpp)\<close>

text \<open>
  The file is compiled in one of several configurations. \<open>Windows\<close> stands for a build
  with \<open>_MSC_VER\<close> and \<open>_WIN32\<close>, \<open>Apple\<close> for \<open>__APPLE__\<close>, \<open>Linux\<close> for every
  other target. Everything below is the \<open>#ifndef CPPCODEGEN\<close> build, the only one that
  contains \<open>main\<close>.
\<close>

datatype platform = Windows | Apple | Linux

subsection \<open>Memory\<close>

text \<open>
  Addresses (\<open>void *\<close>) are natural numbers, \<open>nullptr\<close> is 0. The heap is byte
  addressed; multi-byte loads are little endian, as on every target of the runtime.
  \<open>psz\<close> is \<open>sizeof(void *)\<close> = \<open>sizeof(intptr_t)\<close>.
\<close>

type_synonym addr = nat
type_synonym byte = "8 word"
type_synonym int32 = "32 word"
type_synonym uint16 = "16 word"
type_synonym heap = "addr \<Rightarrow> byte"

definition nullptr :: addr where
  "nullptr = 0"

fun load_le :: "heap \<Rightarrow> addr \<Rightarrow> nat \<Rightarrow> nat" where
  "load_le h a 0 = 0"
| "load_le h a (Suc n) = unat (h a) + 256 * load_le h (Suc a) n"

definition load_int32 :: "heap \<Rightarrow> addr \<Rightarrow> int32" where
  "load_int32 h a = word_of_nat (load_le h a 4)"

definition load_uint16 :: "heap \<Rightarrow> addr \<Rightarrow> uint16" where
  "load_uint16 h a = word_of_nat (load_le h a 2)"

definition load_ptr :: "nat \<Rightarrow> heap \<Rightarrow> addr \<Rightarrow> addr" where
  "load_ptr psz h a = load_le h a psz"

subsection \<open>Observable actions\<close>

text \<open>
  A run is described by the list of calls it makes to its external collaborators and to
  the C library, in program order.
\<close>

datatype pfn = GetRuntimeException | FailFast | AppendExceptionStackFrame
  | RhNewObject | RhNewArray | RhTypeCast_IsInstanceOf | RhTypeCast_CheckCast
  | RhpStelemRef | RhpLdelemaRef | RhpThrowEx

datatype event =
    EvPalInit
  | EvRtuDllMain
  | EvRhpEnableConservativeStackReporting
  | EvRhpRegisterCoffModule addr "32 word" "pfn option list" nat
  | EvInitializeModules "addr list" int32
  | EvManagedMain int32 addr
  | EvPrintf string
  | EvPutwchar uint16
  | EvShutdown
  | EvExit int32

subsection \<open>Raw object layout accessors\<close>

text \<open>\<open>Object::get_EEType\<close>: \<open>*(MethodTable **)this\<close>.\<close>

definition get_EEType :: "nat \<Rightarrow> heap \<Rightarrow> addr \<Rightarrow> addr" where
  "get_EEType psz h this = load_ptr psz h this"

text \<open>\<open>Array::GetArrayLength\<close>: \<open>*(int32_t *)((void **)this + 1)\<close>.\<close>

definition GetArrayLength :: "nat \<Rightarrow> heap \<Rightarrow> addr \<Rightarrow> int32" where
  "GetArrayLength psz h this = load_int32 h (this + 1 * psz)"

text \<open>\<open>Array::GetArrayData\<close>: \<open>(void **)this + 2\<close>.\<close>

definition GetArrayData :: "nat \<Rightarrow> addr \<Rightarrow> addr" where
  "GetArrayData psz this = this + 2 * psz"

text \<open>
  The loop of \<open>PrintStringObject\<close>: \<open>while (index < length) { putwchar(*pString);
  pString++; index++; }\<close> with \<open>int32_t\<close> counters and a \<open>uint16_t *\<close> cursor.
\<close>

function PrintStringObject_loop :: "heap \<Rightarrow> addr \<Rightarrow> int32 \<Rightarrow> int32 \<Rightarrow> event list" where
  "PrintStringObject_loop h pString index len =
     (if index <s len
      then EvPutwchar (load_uint16 h pString) # PrintStringObject_loop h (pString + 2) (index + 1) len
      else [])"
  by pat_completeness auto

lemma sint_succ_below:
  fixes i l :: int32
  assumes "i <s l"
  shows "sint (i + 1) = sint i + 1"
proof -
  have lo: "- (2 ^ 31) \<le> sint i"
    using sint_ge [of i] by simp
  have "sint i < sint l"
    using assms by (simp add: word_sless_alt)
  moreover have "sint l < 2 ^ 31"
    using sint_lt [of l] by simp
  ultimately have hi: "sint i + 1 < 2 ^ 31"
    by linarith
  have "sint (i + 1) = signed_take_bit 31 (sint i + 1)"
    by (simp add: sint_word_ariths)
  also have "\<dots> = sint i + 1"
    using lo hi by (simp add: signed_take_bit_int_eq_self)
  finally show ?thesis .
qed

termination PrintStringObject_loop
proof (relation "measure (\<lambda>(h, p, i, l). nat (sint l - sint i))")
  show "wf (measure (\<lambda>(h, p, i, l). nat (sint l - sint i)))"
    by simp
next
  fix h :: heap and pString :: addr and index len :: int32
  assume less: "index <s len"
  have "sint index < sint len"
    using less by (simp add: word_sless_alt)
  then show "((h, pString + 2, index + 1, len), (h, pString, index, len))
      \<in> measure (\<lambda>(h, p, i, l). nat (sint l - sint i))"
    using sint_succ_below [OF less] by simp
qed

declare PrintStringObject_loop.simps [simp del]

text \<open>
  \<open>PrintStringObject\<close>: the length is the \<open>int32_t\<close> at byte offset
  \<open>sizeof(intptr_t)\<close>, the characters start at byte offset
  \<open>sizeof(intptr_t) + sizeof(int32_t)\<close>.
\<close>

definition PrintStringObject :: "nat \<Rightarrow> heap \<Rightarrow> addr \<Rightarrow> event list" where
  "PrintStringObject psz h pStringToPrint =
     (let len = load_int32 h (pStringToPrint + psz);
          pString = pStringToPrint + psz + 4
      in PrintStringObject_loop h pString 0 len)"

subsection \<open>Faults\<close>

text \<open>
  A C++ exception in flight. Every \<open>throw\<close> of this file throws a string literal, that
  is a \<open>const char *\<close>; \<open>OtherException\<close> stands for an exception of any other type.
  A function that may throw returns \<open>exn + 'a\<close>.
\<close>

datatype exn = CString string | OtherException

definition RhGetCurrentThreadStackTrace :: "exn + unit" where
  "RhGetCurrentThreadStackTrace = Inl (CString ''RhGetCurrentThreadStackTrace'')"

definition RhpUniversalTransition :: "exn + unit" where
  "RhpUniversalTransition = Inl (CString ''RhpUniversalTransition'')"

definition RhpEtwExceptionThrown :: "exn + unit" where
  "RhpEtwExceptionThrown = Inl (CString ''RhpEtwExceptionThrown'')"

definition fail_fast :: "exn + unit" where
  "fail_fast = Inl (CString ''__fail_fast'')"

text \<open>Sequencing of calls that may throw: the rest runs only on a normal return.\<close>

definition and_then :: "exn + 'a \<Rightarrow> ('a \<Rightarrow> exn + 'b) \<Rightarrow> exn + 'b" where
  "and_then m k = (case m of Inl e \<Rightarrow> Inl e | Inr v \<Rightarrow> k v)"

definition nl :: string where
  "nl = [CHR 0x0A]"

text \<open>
  \<open>__not_yet_implemented\<close>: prints two fixed lines, the method name and the reason, both
  through \<open>PrintStringObject\<close>, and calls \<open>exit(-1)\<close>. It does not return.
\<close>

definition not_yet_implemented :: "nat \<Rightarrow> heap \<Rightarrow> addr \<Rightarrow> addr \<Rightarrow> event list" where
  "not_yet_implemented psz h pMethodName pMessage =
     [EvPrintf (''ILCompiler failed generating code for this method; execution cannot continue.'' @ nl),
      EvPrintf (''This is likely because of a feature that is not yet implemented in the compiler.'' @ nl),
      EvPrintf ''Method: '']
     @ PrintStringObject psz h pMethodName
     @ [EvPrintf (nl @ nl), EvPrintf ''Reason: '']
     @ PrintStringObject psz h pMessage
     @ [EvPrintf nl, EvExit (- 1)]"

subsection \<open>External collaborators\<close>

text \<open>
  What the code only declares and calls is a parameter of the model: the results of the
  three initialisation calls and of \<open>RhpRegisterCoffModule\<close>, the heap, the pointer size
  and the behaviour of the managed entry point \<open>__managed__Main\<close>. The managed entry
  point either returns a value, leaves through a C++ exception, or reaches
  \<open>__not_yet_implemented\<close> with two managed strings.
\<close>

datatype managed_outcome =
    Returns int32
  | Raises exn
  | NotYetImplemented addr addr

record runtime_env =
  PalInit :: bool
  RtuDllMain :: int32
  RhpEnableConservativeStackReporting :: int32
  RhpRegisterCoffModule :: bool
  managed_Main :: "int32 \<Rightarrow> addr \<Rightarrow> managed_outcome"
  managedcode_a :: addr
  managedcode_z :: addr
  heap_of :: heap
  pointer_size :: nat

text \<open>How the process ends.\<close>

datatype process_end =
    MainReturned int32
  | Exited int32
  | Terminated
  | Undefined

subsection \<open>Runtime initialisation\<close>

text \<open>\<open>__initialize_runtime\<close>: three calls, each gating the next; \<open>-1\<close> on the first failure.\<close>

definition initialize_runtime :: "runtime_env \<Rightarrow> event list \<times> int32" where
  "initialize_runtime env =
     (if \<not> PalInit env then ([EvPalInit], - 1)
      else if RtuDllMain env = 0 then ([EvPalInit, EvRtuDllMain], - 1)
      else if RhpEnableConservativeStackReporting env = 0
        then ([EvPalInit, EvRtuDllMain, EvRhpEnableConservativeStackReporting], - 1)
      else ([EvPalInit, EvRtuDllMain, EvRhpEnableConservativeStackReporting], 0))"

definition shutdown_runtime :: "event list" where
  "shutdown_runtime = [EvShutdown]"

subsection \<open>Module registry\<close>

text \<open>
  Modelled from the spec: \<open>NoStl::vector\<close> (vector.h is not among the sources), the
  "growable list" of the active-registration strategy. \<open>push_back\<close> appends,
  \<open>size\<close> counts the elements, and \<open>operator[]\<close> designates an element of the list;
  an index that is not below the size designates none, which is \<open>OutOfBounds\<close>. The
  address of element \<open>i\<close> gives access to the elements from \<open>i\<close> on.
\<close>

type_synonym 'a vector = "'a list"

datatype access_error = OutOfBounds

definition push_back :: "'a vector \<Rightarrow> 'a \<Rightarrow> 'a vector" where
  "push_back v x = v @ [x]"

definition vector_size :: "'a vector \<Rightarrow> nat" where
  "vector_size v = length v"

definition vector_at :: "'a vector \<Rightarrow> nat \<Rightarrow> access_error + 'a list" where
  "vector_at v i = (if i < vector_size v then Inr (drop i v) else Inl OutOfBounds)"

text \<open>\<open>RegisterReadyToRunModule\<close> (MachO targets): \<open>__registeredModules.push_back(pModule)\<close>.\<close>

definition RegisterReadyToRunModule :: "addr vector \<Rightarrow> addr \<Rightarrow> addr vector" where
  "RegisterReadyToRunModule registeredModules pModule = push_back registeredModules pModule"

text \<open>The two bookend arrays, \<open>void * __modules_a[] = { nullptr }\<close> and the same for z.\<close>

definition modules_a :: "addr list" where
  "modules_a = [nullptr]"

definition modules_z :: "addr list" where
  "modules_z = [nullptr]"

text \<open>
  The loaded program, as far as the registry goes: the merged \<open>.modules\<close> data with the
  positions of the symbols \<open>__modules_a\<close> and \<open>__modules_z\<close> in it (counted in
  pointers), and the vector \<open>__registeredModules\<close>.
\<close>

record image =
  modules_section :: "addr list"
  modules_a_at :: nat
  modules_z_at :: nat
  registeredModules :: "addr vector"

text \<open>
  What the file's comment says of linking and loading: the sections \<open>.modules$A\<close>,
  every unit's \<open>.modules$I\<close> (one pointer each) and \<open>.modules$Z\<close> are merged in
  alphabetical order; on MachO targets each unit's pointer is passed to
  \<open>RegisterReadyToRunModule\<close> before \<open>main\<close> runs.
\<close>

definition load_image :: "platform \<Rightarrow> addr list \<Rightarrow> image" where
  "load_image plat units =
     (if plat = Apple
      then \<lparr>modules_section = [], modules_a_at = 0, modules_z_at = 0,
            registeredModules = foldl RegisterReadyToRunModule [] units\<rparr>
      else \<lparr>modules_section = modules_a @ units @ modules_z, modules_a_at = 0,
            modules_z_at = length modules_a + length units,
            registeredModules = []\<rparr>)"

text \<open>
  The call of \<open>InitializeModules\<close> in \<open>main\<close>. The event holds the pointers readable
  from the first argument onwards and the count, an \<open>int\<close>.
\<close>

definition deliver_modules :: "platform \<Rightarrow> image \<Rightarrow> access_error + event" where
  "deliver_modules plat img =
     (if plat = Apple
      then (case vector_at (registeredModules img) 0 of
              Inl e \<Rightarrow> Inl e
            | Inr p \<Rightarrow> Inr (EvInitializeModules p (word_of_nat (vector_size (registeredModules img)))))
      else Inr (EvInitializeModules (drop (modules_a_at img) (modules_section img))
                  (word_of_int (int (modules_z_at img) - int (modules_a_at img)))))"

text \<open>The entries the consumer is told to read: the first \<open>count\<close> ones.\<close>

fun module_list :: "event \<Rightarrow> addr list" where
  "module_list (EvInitializeModules modules count) = take (nat (sint count)) modules"
| "module_list _ = []"

subsection \<open>Process entry\<close>

definition c_classlibFunctions :: "pfn option list" where
  "c_classlibFunctions = [Some GetRuntimeException, Some FailFast, None, None]"

text \<open>The block under \<open>#if defined(_WIN32) && !defined(CPPCODEGEN)\<close>.\<close>

definition register_coff_module :: "platform \<Rightarrow> runtime_env \<Rightarrow> event list \<times> bool" where
  "register_coff_module plat env =
     (if plat = Windows
      then ([EvRhpRegisterCoffModule (managedcode_a env)
               (word_of_int (int (managedcode_z env) - int (managedcode_a env)))
               c_classlibFunctions (length c_classlibFunctions)],
            RhpRegisterCoffModule env)
      else ([], True))"

text \<open>
  The \<open>try\<close> block: \<open>retval = __managed__Main(argc, argv)\<close> with the handler
  \<open>catch (const char* &e)\<close>. \<open>Inr\<close> is the value of \<open>retval\<close> after the block,
  \<open>Inl\<close> says that control never comes back to \<open>main\<close>.
\<close>

definition try_managed_main :: "runtime_env \<Rightarrow> int32 \<Rightarrow> addr \<Rightarrow> event list \<times> (process_end + int32)" where
  "try_managed_main env argc argv =
     (case managed_Main env argc argv of
        Returns r \<Rightarrow> ([], Inr r)
      | Raises (CString e) \<Rightarrow>
          ([EvPrintf (''Call to an unimplemented runtime method; execution cannot continue.'' @ nl),
            EvPrintf (''Method: '' @ e @ nl)], Inr (- 1))
      | Raises OtherException \<Rightarrow> ([], Inl Terminated)
      | NotYetImplemented pMethodName pMessage \<Rightarrow>
          (not_yet_implemented (pointer_size env) (heap_of env) pMethodName pMessage,
           Inl (Exited (- 1))))"

definition main :: "platform \<Rightarrow> runtime_env \<Rightarrow> image \<Rightarrow> int32 \<Rightarrow> addr \<Rightarrow> event list \<times> process_end" where
  "main plat env img argc argv =
     (case initialize_runtime env of (ev1, rc) \<Rightarrow>
      if rc \<noteq> 0 then (ev1, MainReturned (- 1))
      else case register_coff_module plat env of (ev2, ok) \<Rightarrow>
      if \<not> ok then (ev1 @ ev2, MainReturned (- 1))
      else case deliver_modules plat img of
        Inl e \<Rightarrow> (ev1 @ ev2, Undefined)
      | Inr ev3 \<Rightarrow>
          (case try_managed_main env argc argv of
             (ev4, Inl stop) \<Rightarrow> (ev1 @ ev2 @ [ev3, EvManagedMain argc argv] @ ev4, stop)
           | (ev4, Inr retval) \<Rightarrow>
               (ev1 @ ev2 @ [ev3, EvManagedMain argc argv] @ ev4 @ shutdown_runtime,
                MainReturned retval)))"

section \<open>Notions used in the statements\<close>

subsection \<open>Objects in memory\<close>

text \<open>
  \<open>le_bytes n v\<close> are the \<open>n\<close> bytes of \<open>v\<close>, lowest first. An object image is a list
  of bytes; \<open>object_at h p img\<close> says that the heap holds the image at address \<open>p\<close>,
  \<open>place\<close> writes one there. A string is its type descriptor, its 32-bit length and
  its UTF-16 code units; an array is its type descriptor, its 32-bit length and whatever
  follows.
\<close>

fun le_bytes :: "nat \<Rightarrow> nat \<Rightarrow> byte list" where
  "le_bytes 0 v = []"
| "le_bytes (Suc n) v = word_of_nat v # le_bytes n (v div 256)"

definition object_at :: "heap \<Rightarrow> addr \<Rightarrow> byte list \<Rightarrow> bool" where
  "object_at h p img = (map h [p ..< p + length img] = img)"

fun place :: "heap \<Rightarrow> addr \<Rightarrow> byte list \<Rightarrow> heap" where
  "place h a [] = h"
| "place h a (b # bs) = place (h(a := b)) (Suc a) bs"

definition string_object :: "nat \<Rightarrow> addr \<Rightarrow> uint16 list \<Rightarrow> byte list" where
  "string_object psz td us =
     le_bytes psz td @ le_bytes 4 (length us) @ concat (map (\<lambda>u. le_bytes 2 (unat u)) us)"

definition array_object :: "nat \<Rightarrow> addr \<Rightarrow> int32 \<Rightarrow> byte list \<Rightarrow> byte list" where
  "array_object psz td len rest = le_bytes psz td @ le_bytes 4 (unat len) @ rest"

subsection \<open>Runs\<close>

text \<open>The module list a program with the given contributing units hands to the runtime.\<close>

definition delivered :: "platform \<Rightarrow> addr list \<Rightarrow> addr list option" where
  "delivered plat units =
     (case deliver_modules plat (load_image plat units) of
        Inl e \<Rightarrow> None
      | Inr ev \<Rightarrow> Some (module_list ev))"

text \<open>
  The checked bootstrap calls of a configuration, each with its outcome, and the calls
  made when they are tried in order until one fails.
\<close>

definition bootstrap_checks :: "platform \<Rightarrow> runtime_env \<Rightarrow> (event \<times> bool) list" where
  "bootstrap_checks plat env =
     [(EvPalInit, PalInit env),
      (EvRtuDllMain, RtuDllMain env \<noteq> 0),
      (EvRhpEnableConservativeStackReporting, RhpEnableConservativeStackReporting env \<noteq> 0)]
     @ (if plat = Windows
        then [(EvRhpRegisterCoffModule (managedcode_a env)
                 (word_of_int (int (managedcode_z env) - int (managedcode_a env)))
                 c_classlibFunctions (length c_classlibFunctions),
               RhpRegisterCoffModule env)]
        else [])"

fun until_failure :: "(event \<times> bool) list \<Rightarrow> event list" where
  "until_failure [] = []"
| "until_failure ((ev, ok) # rest) = ev # (if ok then until_failure rest else [])"

fun is_bootstrap_check :: "event \<Rightarrow> bool" where
  "is_bootstrap_check EvPalInit = True"
| "is_bootstrap_check EvRtuDllMain = True"
| "is_bootstrap_check EvRhpEnableConservativeStackReporting = True"
| "is_bootstrap_check (EvRhpRegisterCoffModule a r t n) = True"
| "is_bootstrap_check _ = False"

text \<open>Output through the C library, as opposed to calls into the runtime.\<close>

fun is_output :: "event \<Rightarrow> bool" where
  "is_output (EvPrintf s) = True"
| "is_output (EvPutwchar c) = True"
| "is_output (EvExit c) = True"
| "is_output _ = False"

text \<open>The four steps whose order is fixed.\<close>

datatype step = PlatformInit | StackScanEnable | ModuleInit | ManagedEntry

fun step_of :: "event \<Rightarrow> step option" where
  "step_of EvPalInit = Some PlatformInit"
| "step_of EvRhpEnableConservativeStackReporting = Some StackScanEnable"
| "step_of (EvInitializeModules ms c) = Some ModuleInit"
| "step_of (EvManagedMain c v) = Some ManagedEntry"
| "step_of _ = None"

text \<open>The callback table and count of a registration call.\<close>

fun registered_table :: "event \<Rightarrow> (pfn option list \<times> nat) option" where
  "registered_table (EvRhpRegisterCoffModule a r t n) = Some (t, n)"
| "registered_table _ = None"

text \<open>What a run does after it has called the managed entry point.\<close>

definition after_entry :: "event list \<Rightarrow> event list" where
  "after_entry evs = tl (dropWhile (\<lambda>ev. step_of ev \<noteq> Some ManagedEntry) evs)"

text \<open>Managed code that calls a native function and returns \<open>r\<close> when the call returns.\<close>

definition managed_calling :: "exn + unit \<Rightarrow> int32 \<Rightarrow> managed_outcome" where
  "managed_calling call r =
     (case and_then call (\<lambda>u. Inr r) of Inl e \<Rightarrow> Raises e | Inr v \<Rightarrow> Returns v)"

text \<open>An environment in which every bootstrap call succeeds and managed code returns 42.\<close>

definition sample_env :: runtime_env where
  "sample_env =
     \<lparr>PalInit = True, RtuDllMain = 1, RhpEnableConservativeStackReporting = 1,
      RhpRegisterCoffModule = True, managed_Main = (\<lambda>argc argv. Returns 42),
      managedcode_a = 4096, managedcode_z = 8192, heap_of = (\<lambda>a. 0), pointer_size = 8\<rparr>"

text \<open>
  Two more: managed code that calls \<open>RhGetCurrentThreadStackTrace\<close>, and managed code
  that reports the method \<open>M\<close> (0x4D) for the reason \<open>R\<close> (0x52), both strings
  being in memory.
\<close>

definition faulting_env :: runtime_env where
  "faulting_env = sample_env\<lparr>managed_Main := \<lambda>argc argv. managed_calling RhGetCurrentThreadStackTrace 0\<rparr>"

definition reporting_env :: runtime_env where
  "reporting_env = sample_env
     \<lparr>managed_Main := \<lambda>argc argv. NotYetImplemented 4096 8192,
      heap_of := place (place (\<lambda>a. 0) 4096 (string_object 8 28672 [0x4D])) 8192
                   (string_object 8 28672 [0x52])\<rparr>"

lemmas run_defs = main_def initialize_runtime_def register_coff_module_def deliver_modules_def
  try_managed_main_def shutdown_runtime_def vector_at_def vector_size_def

section \<open>Properties\<close>

subsection \<open>Auxiliary facts\<close>

lemma map_filter_app:
  "List.map_filter f (xs @ ys) = List.map_filter f xs @ List.map_filter f ys"
  by (simp add: List.map_filter_def)

lemma map_filter_none:
  assumes "list_all (\<lambda>x. f x = None) xs"
  shows "List.map_filter f xs = []"
  using assms by (induction xs) (simp_all add: List.map_filter_simps)

lemma loop_is_output: "list_all is_output (PrintStringObject_loop h p i l)"
proof (induction h p i l rule: PrintStringObject_loop.induct)
  case (1 h pString index len)
  then show ?case
    by (subst PrintStringObject_loop.simps) simp
qed

lemma not_yet_implemented_is_output: "list_all is_output (not_yet_implemented psz h m r)"
  by (simp add: not_yet_implemented_def PrintStringObject_def loop_is_output)

lemma try_managed_main_is_output: "list_all is_output (fst (try_managed_main env argc argv))"
  by (simp add: try_managed_main_def not_yet_implemented_is_output
      split: managed_outcome.split exn.split)

lemma output_no_step: "is_output ev \<Longrightarrow> step_of ev = None"
  by (cases ev) simp_all

lemma output_no_table: "is_output ev \<Longrightarrow> registered_table ev = None"
  by (cases ev) simp_all

lemma output_steps:
  assumes "list_all is_output evs"
  shows "List.map_filter step_of evs = []"
proof (rule map_filter_none)
  show "list_all (\<lambda>x. step_of x = None) evs"
    using assms by (simp add: list_all_iff output_no_step)
qed

lemma output_tables:
  assumes "list_all is_output evs"
  shows "List.map_filter registered_table evs = []"
proof (rule map_filter_none)
  show "list_all (\<lambda>x. registered_table x = None) evs"
    using assms by (simp add: list_all_iff output_no_table)
qed

lemma sint_count:
  assumes "n < 2 ^ 31"
  shows "sint (word_of_nat n :: int32) = int n"
proof -
  have "sint (word_of_nat n :: int32) = signed_take_bit 31 (int n)"
    by (simp only: signed_of_nat) simp
  also have "\<dots> = int n"
    using assms by (simp add: signed_take_bit_int_eq_self)
  finally show ?thesis .
qed

lemma foldl_register: "foldl RegisterReadyToRunModule acc units = acc @ units"
  by (induction units arbitrary: acc) (simp_all add: RegisterReadyToRunModule_def push_back_def)

subsection \<open>Diagnostic fallback stubs\<close>

text \<open>
  C8. Each of \<open>RhGetCurrentThreadStackTrace\<close>, \<open>RhpUniversalTransition\<close> and
  \<open>RhpEtwExceptionThrown\<close> throws its own name as soon as it is called: it is a raised
  fault, it is no returned value, and whatever the caller would do with a result does not
  happen.
\<close>

theorem stubs_always_raise:
  "RhGetCurrentThreadStackTrace = Inl (CString ''RhGetCurrentThreadStackTrace'')
   \<and> RhpUniversalTransition = Inl (CString ''RhpUniversalTransition'')
   \<and> RhpEtwExceptionThrown = Inl (CString ''RhpEtwExceptionThrown'')
   \<and> (\<forall>v. RhGetCurrentThreadStackTrace \<noteq> Inr v)
   \<and> (\<forall>v. RhpUniversalTransition \<noteq> Inr v)
   \<and> (\<forall>v. RhpEtwExceptionThrown \<noteq> Inr v)
   \<and> and_then RhGetCurrentThreadStackTrace k = Inl (CString ''RhGetCurrentThreadStackTrace'')
   \<and> and_then RhpUniversalTransition k = Inl (CString ''RhpUniversalTransition'')
   \<and> and_then RhpEtwExceptionThrown k = Inl (CString ''RhpEtwExceptionThrown'')"
  by (simp add: RhGetCurrentThreadStackTrace_def RhpUniversalTransition_def
      RhpEtwExceptionThrown_def and_then_def)

theorem stubs_always_raise_witness:
  "managed_calling RhGetCurrentThreadStackTrace 0 = Raises (CString ''RhGetCurrentThreadStackTrace'')
   \<and> managed_calling RhpUniversalTransition 0 = Raises (CString ''RhpUniversalTransition'')
   \<and> managed_calling RhpEtwExceptionThrown 0 = Raises (CString ''RhpEtwExceptionThrown'')"
  using stubs_always_raise [of "\<lambda>u. Inr (0 :: int32)"]
  by (simp add: managed_calling_def)

subsection \<open>Bootstrap\<close>

text \<open>
  C5. If \<open>PalInit\<close>, \<open>RtuDllMain\<close> or \<open>RhpEnableConservativeStackReporting\<close> fails,
  or \<open>RhpRegisterCoffModule\<close> on Windows, then \<open>main\<close> returns \<open>-1\<close>, which is
  negative, and the run consists of the bootstrap checks up to the failing one and of
  nothing else: no later check, no module initialisation, no managed entry point, no
  shutdown.
\<close>

theorem bootstrap_failure_aborts:
  assumes "\<not> PalInit env \<or> RtuDllMain env = 0 \<or> RhpEnableConservativeStackReporting env = 0
           \<or> (plat = Windows \<and> \<not> RhpRegisterCoffModule env)"
  shows "main plat env img argc argv = (until_failure (bootstrap_checks plat env), MainReturned (- 1))
         \<and> (- 1 :: int32) <s 0
         \<and> list_all is_bootstrap_check (fst (main plat env img argc argv))
         \<and> List.map_filter step_of (fst (main plat env img argc argv))
             = (if PalInit env then PlatformInit # (if RtuDllMain env = 0 then [] else [StackScanEnable])
                else [PlatformInit])"
  using assms
  by (auto simp add: main_def initialize_runtime_def register_coff_module_def bootstrap_checks_def)

theorem bootstrap_failure_aborts_witness:
  "\<not> PalInit (sample_env\<lparr>PalInit := False\<rparr>)
   \<and> main Linux (sample_env\<lparr>PalInit := False\<rparr>) (load_image Linux [4096]) 1 0
       = ([EvPalInit], MainReturned (- 1))
   \<and> main Windows (sample_env\<lparr>RhpRegisterCoffModule := False\<rparr>) (load_image Windows [4096]) 1 0
       = ([EvPalInit, EvRtuDllMain, EvRhpEnableConservativeStackReporting,
           EvRhpRegisterCoffModule 4096 4096 [Some GetRuntimeException, Some FailFast, None, None] 4],
          MainReturned (- 1))"
proof -
  have pal: "\<not> PalInit (sample_env\<lparr>PalInit := False\<rparr>)"
    by simp
  have coff: "\<not> RhpRegisterCoffModule (sample_env\<lparr>RhpRegisterCoffModule := False\<rparr>)"
    by simp
  from pal have
    "\<not> PalInit (sample_env\<lparr>PalInit := False\<rparr>) \<or> RtuDllMain (sample_env\<lparr>PalInit := False\<rparr>) = 0
     \<or> RhpEnableConservativeStackReporting (sample_env\<lparr>PalInit := False\<rparr>) = 0
     \<or> (Linux = Windows \<and> \<not> RhpRegisterCoffModule (sample_env\<lparr>PalInit := False\<rparr>))"
    by (rule disjI1)
  from bootstrap_failure_aborts [OF this, of "load_image Linux [4096]" 1 0]
  have one: "main Linux (sample_env\<lparr>PalInit := False\<rparr>) (load_image Linux [4096]) 1 0
       = ([EvPalInit], MainReturned (- 1))"
    by (simp add: bootstrap_checks_def)
  from coff have
    "\<not> PalInit (sample_env\<lparr>RhpRegisterCoffModule := False\<rparr>)
     \<or> RtuDllMain (sample_env\<lparr>RhpRegisterCoffModule := False\<rparr>) = 0
     \<or> RhpEnableConservativeStackReporting (sample_env\<lparr>RhpRegisterCoffModule := False\<rparr>) = 0
     \<or> (Windows = Windows \<and> \<not> RhpRegisterCoffModule (sample_env\<lparr>RhpRegisterCoffModule := False\<rparr>))"
    by simp
  from bootstrap_failure_aborts [OF this, of "load_image Windows [4096]" 1 0]
  have two: "main Windows (sample_env\<lparr>RhpRegisterCoffModule := False\<rparr>) (load_image Windows [4096]) 1 0
       = ([EvPalInit, EvRtuDllMain, EvRhpEnableConservativeStackReporting,
           EvRhpRegisterCoffModule 4096 4096 [Some GetRuntimeException, Some FailFast, None, None] 4],
          MainReturned (- 1))"
    by (simp add: bootstrap_checks_def sample_env_def c_classlibFunctions_def)
  from pal one two show ?thesis
    by blast
qed

text \<open>
  C6. In every run that reaches the managed entry point, the four ordered steps occur
  once each and in this order: \<open>PalInit\<close>, \<open>RhpEnableConservativeStackReporting\<close>,
  \<open>InitializeModules\<close>, \<open>__managed__Main\<close>.
\<close>

theorem bootstrap_order_fixed:
  assumes "ManagedEntry \<in> set (List.map_filter step_of (fst (main plat env img argc argv)))"
  shows "List.map_filter step_of (fst (main plat env img argc argv))
         = [PlatformInit, StackScanEnable, ModuleInit, ManagedEntry]"
proof -
  obtain ev4 r where t: "try_managed_main env argc argv = (ev4, r)"
    by (cases "try_managed_main env argc argv")
  have e4: "List.map_filter step_of ev4 = []"
    using output_steps [OF try_managed_main_is_output [of env argc argv]] t by simp
  show ?thesis
    using assms e4 t
    by (auto simp add: main_def initialize_runtime_def register_coff_module_def deliver_modules_def
        shutdown_runtime_def map_filter_app
        split: if_splits sum.splits prod.splits)
qed

theorem bootstrap_order_fixed_witness:
  "List.map_filter step_of (fst (main Windows sample_env (load_image Windows [4096, 8192]) 2 28672))
     = [PlatformInit, StackScanEnable, ModuleInit, ManagedEntry]"
proof -
  have reached: "ManagedEntry \<in> set (List.map_filter step_of
      (fst (main Windows sample_env (load_image Windows [4096, 8192]) 2 28672)))"
    by (simp add: run_defs sample_env_def load_image_def)
  show ?thesis
    by (rule bootstrap_order_fixed [OF reached])
qed

text \<open>
  C9. When the bootstrap calls succeed, the module list can be delivered and the managed
  entry point returns \<open>r\<close>, the entry point was called once, with the \<open>argc\<close> and
  \<open>argv\<close> that \<open>main\<close> received, and \<open>main\<close> returns \<open>r\<close>.
\<close>

theorem arguments_forwarded_result_returned:
  assumes "PalInit env" and "RtuDllMain env \<noteq> 0" and "RhpEnableConservativeStackReporting env \<noteq> 0"
    and "plat = Windows \<longrightarrow> RhpRegisterCoffModule env"
    and "plat = Apple \<longrightarrow> registeredModules img \<noteq> []"
    and "managed_Main env argc argv = Returns r"
  shows "snd (main plat env img argc argv) = MainReturned r
         \<and> [ev \<leftarrow> fst (main plat env img argc argv). step_of ev = Some ManagedEntry]
             = [EvManagedMain argc argv]
         \<and> last (fst (main plat env img argc argv)) = EvShutdown"
  using assms
  by (auto simp add: run_defs split: if_splits sum.splits prod.splits)

theorem arguments_forwarded_result_returned_witness:
  "main Linux sample_env (load_image Linux [4096]) 3 28672
     = ([EvPalInit, EvRtuDllMain, EvRhpEnableConservativeStackReporting,
         EvInitializeModules [0, 4096, 0] 2, EvManagedMain 3 28672, EvShutdown], MainReturned 42)
   \<and> snd (main Apple sample_env (load_image Apple [4096]) 3 28672) = MainReturned 42"
proof -
  have a: "PalInit sample_env" and b: "RtuDllMain sample_env \<noteq> 0"
    and c: "RhpEnableConservativeStackReporting sample_env \<noteq> 0"
    and d: "Linux = Windows \<longrightarrow> RhpRegisterCoffModule sample_env"
    and d': "Apple = Windows \<longrightarrow> RhpRegisterCoffModule sample_env"
    and e: "Linux = Apple \<longrightarrow> registeredModules (load_image Linux [4096]) \<noteq> []"
    and e': "Apple = Apple \<longrightarrow> registeredModules (load_image Apple [4096]) \<noteq> []"
    and f: "managed_Main sample_env 3 28672 = Returns 42"
    by (simp_all add: sample_env_def load_image_def RegisterReadyToRunModule_def push_back_def)
  have "main Linux sample_env (load_image Linux [4096]) 3 28672
     = ([EvPalInit, EvRtuDllMain, EvRhpEnableConservativeStackReporting,
         EvInitializeModules [0, 4096, 0] 2, EvManagedMain 3 28672, EvShutdown], MainReturned 42)"
    using arguments_forwarded_result_returned [OF a b c d e f]
    by (simp add: run_defs sample_env_def load_image_def modules_a_def modules_z_def nullptr_def)
  moreover have "snd (main Apple sample_env (load_image Apple [4096]) 3 28672) = MainReturned 42"
    using arguments_forwarded_result_returned [OF a b c d' e' f] by simp
  ultimately show ?thesis
    by simp
qed

subsection \<open>Module registry\<close>

text \<open>
  C1, as stated: under section merge the list handed to \<open>InitializeModules\<close> is the
  descriptors alone, N entries for N units. It is not: for two units the list has three
  entries and starts with the null placeholder of \<open>__modules_a\<close>.
\<close>

theorem section_merge_list_counterexample:
  "delivered Linux [4096, 8192] = Some [nullptr, 4096, 8192]
   \<and> delivered Linux [4096, 8192] \<noteq> Some [4096, 8192]
   \<and> length [nullptr, 4096, 8192 :: addr] \<noteq> 2"
  by (simp add: delivered_def deliver_modules_def load_image_def modules_a_def modules_z_def
      nullptr_def)

text \<open>
  C1, amended: under section merge (every target but MachO) the list handed to
  \<open>InitializeModules\<close> starts at \<open>__modules_a\<close>: it is the leading null placeholder
  followed by the descriptors of the N units, each once and in link order, N + 1 entries;
  the trailing placeholder is not part of it, and its entries other than the null pointer
  are those of the units.
\<close>

theorem section_merge_list:
  assumes "plat \<noteq> Apple" and "length units + 1 < 2 ^ 31"
  shows "delivered plat units = Some (nullptr # units)
         \<and> deliver_modules plat (load_image plat units)
             = Inr (EvInitializeModules (nullptr # units @ [nullptr]) (word_of_nat (length units + 1)))
         \<and> length (nullptr # units) = length units + 1
         \<and> [p \<leftarrow> nullptr # units. p \<noteq> nullptr] = [p \<leftarrow> units. p \<noteq> nullptr]"
proof -
  have "sint (word_of_nat (Suc (length units)) :: int32) = int (Suc (length units))"
    using assms(2) by (intro sint_count) simp
  then have "nat (sint (word_of_nat (Suc (length units)) :: int32)) = Suc (length units)"
    by simp
  then show ?thesis
    using assms(1)
    by (simp add: delivered_def deliver_modules_def load_image_def modules_a_def modules_z_def)
qed

theorem section_merge_list_witness:
  "delivered Windows [4096, 8192, 12288] = Some [0, 4096, 8192, 12288]"
proof -
  have "Windows \<noteq> Apple" and "length [4096, 8192, 12288 :: addr] + 1 < 2 ^ 31"
    by simp_all
  from section_merge_list [OF this] show ?thesis
    by (simp add: nullptr_def)
qed

text \<open>
  C10. On MachO targets \<open>main\<close> takes the address of element 0 of
  \<open>__registeredModules\<close> whatever the list holds. With no registered module the
  index is outside the list and the run is undefined from there on; with at least one,
  the whole list and its size are delivered.
\<close>

theorem active_registration_needs_a_module:
  assumes "PalInit env" and "RtuDllMain env \<noteq> 0" and "RhpEnableConservativeStackReporting env \<noteq> 0"
  shows "(deliver_modules Apple img = Inl OutOfBounds) = (registeredModules img = [])
         \<and> deliver_modules Apple (load_image Apple units)
             = (if units = [] then Inl OutOfBounds
                else Inr (EvInitializeModules units (word_of_nat (length units))))
         \<and> (snd (main Apple env (load_image Apple units) argc argv) = Undefined) = (units = [])
         \<and> main Apple env (load_image Apple []) argc argv
             = ([EvPalInit, EvRtuDllMain, EvRhpEnableConservativeStackReporting], Undefined)"
proof -
  have regs: "registeredModules (load_image Apple units) = units" for units
    by (simp add: load_image_def foldl_register)
  have one: "(deliver_modules Apple img = Inl OutOfBounds) = (registeredModules img = [])"
    by (simp add: deliver_modules_def vector_at_def vector_size_def)
  have two: "deliver_modules Apple (load_image Apple units)
             = (if units = [] then Inl OutOfBounds
                else Inr (EvInitializeModules units (word_of_nat (length units))))" for units
    by (simp add: deliver_modules_def vector_at_def vector_size_def regs)
  have three: "(snd (main Apple env (load_image Apple units) argc argv) = Undefined) = (units = [])"
    using assms
    by (auto simp add: main_def initialize_runtime_def register_coff_module_def two
        try_managed_main_def split: prod.splits sum.splits managed_outcome.splits exn.splits)
  have four: "main Apple env (load_image Apple []) argc argv
             = ([EvPalInit, EvRtuDllMain, EvRhpEnableConservativeStackReporting], Undefined)"
    using assms two [of "[]"]
    by (simp add: main_def initialize_runtime_def register_coff_module_def)
  from one two three four show ?thesis
    by simp
qed

theorem active_registration_needs_a_module_witness:
  "main Apple sample_env (load_image Apple []) 1 0
     = ([EvPalInit, EvRtuDllMain, EvRhpEnableConservativeStackReporting], Undefined)
   \<and> deliver_modules Apple (load_image Apple [4096, 8192])
     = Inr (EvInitializeModules [4096, 8192] 2)"
proof -
  have "PalInit sample_env" and "RtuDllMain sample_env \<noteq> 0"
    and "RhpEnableConservativeStackReporting sample_env \<noteq> 0"
    by (simp_all add: sample_env_def)
  from active_registration_needs_a_module [OF this, of _ "[4096, 8192]"] show ?thesis
    by simp
qed

subsection \<open>Callback table\<close>

text \<open>
  C2, as stated: the registered table has the eight entries object-alloc, array-alloc,
  type-check, store-ref-element, load-ref-element-address, raise-exception, unset, unset.
  It has four, and the first is \<open>GetRuntimeException\<close>.
\<close>

theorem callback_table_counterexample:
  "List.map_filter registered_table (fst (main Windows sample_env (load_image Windows [4096]) 1 0))
     = [([Some GetRuntimeException, Some FailFast, None, None], 4)]
   \<and> length c_classlibFunctions \<noteq> 8
   \<and> c_classlibFunctions \<noteq> [Some RhNewObject, Some RhNewArray, Some RhTypeCast_CheckCast,
        Some RhpStelemRef, Some RhpLdelemaRef, Some RhpThrowEx, None, None]
   \<and> c_classlibFunctions \<noteq> [Some RhNewObject, Some RhNewArray, Some RhTypeCast_IsInstanceOf,
        Some RhpStelemRef, Some RhpLdelemaRef, Some RhpThrowEx, None, None]"
  by (simp add: run_defs sample_env_def load_image_def c_classlibFunctions_def)

text \<open>
  C2, amended: a run registers a callback table only on Windows and only once the three
  initialisation calls have succeeded; the table is then \<open>GetRuntimeException\<close>,
  \<open>FailFast\<close>, unset (unhandled-exception handler), unset (append-stack-frame), in this
  order, and the count registered with it is its length, 4.
\<close>

theorem callback_table_registered:
  "List.map_filter registered_table (fst (main plat env img argc argv))
     = (if plat = Windows \<and> PalInit env \<and> RtuDllMain env \<noteq> 0
           \<and> RhpEnableConservativeStackReporting env \<noteq> 0
        then [(c_classlibFunctions, length c_classlibFunctions)] else [])
   \<and> c_classlibFunctions = [Some GetRuntimeException, Some FailFast, None, None]
   \<and> length c_classlibFunctions = 4"
proof -
  obtain ev4 r where t: "try_managed_main env argc argv = (ev4, r)"
    by (cases "try_managed_main env argc argv")
  have e4: "List.map_filter registered_table ev4 = []"
    using output_tables [OF try_managed_main_is_output [of env argc argv]] t by simp
  have "List.map_filter registered_table (fst (main plat env img argc argv))
     = (if plat = Windows \<and> PalInit env \<and> RtuDllMain env \<noteq> 0
           \<and> RhpEnableConservativeStackReporting env \<noteq> 0
        then [(c_classlibFunctions, length c_classlibFunctions)] else [])"
    using e4 t
    by (auto simp add: main_def initialize_runtime_def register_coff_module_def deliver_modules_def
        shutdown_runtime_def map_filter_app
        split: if_splits sum.splits prod.splits)
  then show ?thesis
    by (simp add: c_classlibFunctions_def)
qed

theorem callback_table_registered_witness:
  "List.map_filter registered_table
     (fst (main Windows (sample_env\<lparr>RhpRegisterCoffModule := False\<rparr>) (load_image Windows []) 1 0))
     = [([Some GetRuntimeException, Some FailFast, None, None], 4)]
   \<and> List.map_filter registered_table (fst (main Linux sample_env (load_image Linux []) 1 0)) = []"
  using callback_table_registered [of Windows "sample_env\<lparr>RhpRegisterCoffModule := False\<rparr>"
      "load_image Windows []" 1 0]
    callback_table_registered [of Linux sample_env "load_image Linux []" 1 0]
  by (simp add: sample_env_def)

subsection \<open>Objects in memory\<close>

lemma length_le_bytes [simp]: "length (le_bytes n v) = n"
  by (induction n arbitrary: v) simp_all

lemma object_at_append:
  "object_at h p (xs @ ys) \<longleftrightarrow> object_at h p xs \<and> object_at h (p + length xs) ys"
proof -
  have "[p ..< (p + length xs) + length ys]
      = [p ..< p + length xs] @ [p + length xs ..< (p + length xs) + length ys]"
    by (rule upt_add_eq_append) simp
  then have "map h [p ..< p + length (xs @ ys)]
      = map h [p ..< p + length xs] @ map h [p + length xs ..< p + length xs + length ys]"
    by (simp only: length_append map_append add.assoc)
  then show ?thesis
    by (simp only: object_at_def) (simp del: upt_Suc)
qed

lemma object_at_Cons:
  "object_at h p (b # bs) \<longleftrightarrow> h p = b \<and> object_at h (Suc p) bs"
proof -
  have "[p ..< p + length (b # bs)] = p # [Suc p ..< Suc p + length bs]"
    by (subst upt_rec) simp
  then show ?thesis
    by (simp only: object_at_def) simp
qed

lemma place_below: "a < q \<Longrightarrow> place h q bs a = h a"
  by (induction bs arbitrary: h q) simp_all

lemma object_at_place: "object_at (place h p bs) p bs"
proof (induction bs arbitrary: h p)
  case Nil
  then show ?case by (simp add: object_at_def)
next
  case (Cons b bs)
  have first: "place (h(p := b)) (Suc p) bs p = b"
    by (simp add: place_below)
  have rest: "object_at (place (h(p := b)) (Suc p) bs) (Suc p) bs"
    by (rule Cons.IH)
  show ?case
    by (simp only: place.simps object_at_Cons first rest simp_thms)
qed

lemma object_at_place_other:
  assumes "object_at h p img" and "p + length img \<le> q"
  shows "object_at (place h q bs) p img"
proof -
  have "map (place h q bs) [p ..< p + length img] = map h [p ..< p + length img]"
    using assms(2) by (intro map_cong refl place_below) simp
  with assms(1) show ?thesis
    by (simp only: object_at_def)
qed

lemma load_le_bytes:
  "object_at h a (le_bytes n v) \<Longrightarrow> load_le h a n = v mod 256 ^ n"
proof (induction n arbitrary: a v)
  case 0
  then show ?case by simp
next
  case (Suc n)
  from Suc.prems have b: "h a = word_of_nat v"
    and rest: "object_at h (Suc a) (le_bytes n (v div 256))"
    by (simp_all add: object_at_Cons)
  have "unat (word_of_nat v :: byte) = v mod 256"
    by (simp add: unat_of_nat)
  with Suc.IH [OF rest] b show ?case
    by (simp add: mod_mult2_eq)
qed

lemma load_uint16_bytes:
  assumes "object_at h a (le_bytes 2 (unat u))"
  shows "load_uint16 h a = u"
proof -
  have "unat u < 2 ^ 16"
    using unsigned_less [of u] by simp
  then have "unat u mod 256 ^ 2 = unat u"
    by simp
  then show ?thesis
    using load_le_bytes [OF assms] by (simp add: load_uint16_def)
qed

lemma load_int32_bytes:
  assumes "object_at h a (le_bytes 4 v)"
  shows "load_int32 h a = word_of_nat v"
proof -
  have "(word_of_nat (v mod 256 ^ 4) :: int32) = word_of_nat v"
    by (simp add: word_of_nat_eq_iff take_bit_eq_mod)
  then show ?thesis
    using load_le_bytes [OF assms] by (simp add: load_int32_def)
qed

lemma loop_emits:
  assumes "object_at h a (concat (map (\<lambda>u. le_bytes 2 (unat u)) us))"
    and "sint l - sint i = int (length us)"
  shows "PrintStringObject_loop h a i l = map EvPutwchar us"
  using assms
proof (induction us arbitrary: a i)
  case Nil
  then have "\<not> i <s l"
    by (simp add: word_sless_alt)
  then show ?case
    by (subst PrintStringObject_loop.simps) simp
next
  case (Cons u us)
  from Cons.prems(2) have less: "i <s l"
    by (simp add: word_sless_alt)
  from Cons.prems(1) have first: "object_at h a (le_bytes 2 (unat u))"
    and rest: "object_at h (a + 2) (concat (map (\<lambda>u. le_bytes 2 (unat u)) us))"
    by (simp_all add: object_at_append)
  have "sint l - sint (i + 1) = int (length us)"
    using Cons.prems(2) sint_succ_below [OF less] by simp
  from Cons.IH [OF rest this] load_uint16_bytes [OF first] less show ?case
    by (subst PrintStringObject_loop.simps) simp
qed

lemma print_string_object:
  assumes "object_at h p (string_object psz td us)"
    and "length us < 2 ^ 31"
  shows "PrintStringObject psz h p = map EvPutwchar us"
proof -
  from assms(1) have len: "object_at h (p + psz) (le_bytes 4 (length us))"
    and chars: "object_at h (p + psz + 4) (concat (map (\<lambda>u. le_bytes 2 (unat u)) us))"
    by (simp_all add: string_object_def object_at_append)
  have "sint (load_int32 h (p + psz)) - sint (0 :: int32) = int (length us)"
    using load_int32_bytes [OF len] sint_count [OF assms(2)] by simp
  from loop_emits [OF chars this] show ?thesis
    by (simp add: PrintStringObject_def)
qed

text \<open>
  C7. For a string object with L code units in memory (L below \<open>2 ^ 31\<close>, the range of
  the length field), \<open>PrintStringObject\<close> calls \<open>putwchar\<close> exactly L times, once for
  each code unit, in order, and does nothing else.
\<close>

theorem string_walk_emits_units:
  assumes "object_at h p (string_object psz td us)"
    and "length us < 2 ^ 31"
  shows "PrintStringObject psz h p = map EvPutwchar us
         \<and> length (PrintStringObject psz h p) = length us"
  using print_string_object [OF assms] by simp

text \<open>The string \<open>abc\<close>: length 3 and the code units 0x61, 0x62, 0x63.\<close>

theorem string_walk_emits_units_witness:
  "PrintStringObject 8 (place (\<lambda>a. 0) 4096 (string_object 8 28672 [0x61, 0x62, 0x63])) 4096
     = [EvPutwchar 0x61, EvPutwchar 0x62, EvPutwchar 0x63]"
proof -
  have there: "object_at (place (\<lambda>a. 0) 4096 (string_object 8 28672 [0x61, 0x62, 0x63])) 4096
      (string_object 8 28672 [0x61, 0x62, 0x63])"
    by (rule object_at_place)
  have short: "length [0x61, 0x62, 0x63 :: uint16] < 2 ^ 31"
    by simp
  from string_walk_emits_units [OF there short] show ?thesis
    by simp
qed

text \<open>
  C3, as stated: \<open>GetArrayData\<close> is the address at offset pointer size + 4, right after
  the length field. With 8-byte pointers it is not: for an array at 4096 the length field
  ends at 4108 and \<open>GetArrayData\<close> is 4112.
\<close>

theorem array_data_offset_counterexample:
  "GetArrayData 8 4096 = 4112 \<and> GetArrayData 8 4096 \<noteq> 4096 + 8 + 4"
  by (simp add: GetArrayData_def)

text \<open>
  C3, amended: for an array object in memory, \<open>GetArrayLength\<close> is the 32-bit field
  right after the type descriptor, and \<open>GetArrayData\<close> is the address at offset twice
  the pointer size; this is the address right after the length field exactly when
  pointers have 4 bytes.
\<close>

theorem array_accessors:
  assumes "object_at h p (array_object psz td len rest)"
  shows "GetArrayLength psz h p = len
         \<and> GetArrayData psz p = p + 2 * psz
         \<and> (GetArrayData psz p = p + psz + 4) = (psz = 4)"
proof -
  from assms have "object_at h (p + psz) (le_bytes 4 (unat len))"
    by (simp add: array_object_def object_at_append)
  from load_int32_bytes [OF this] show ?thesis
    by (auto simp add: GetArrayLength_def GetArrayData_def)
qed

theorem array_accessors_witness:
  "GetArrayLength 8 (place (\<lambda>a. 0) 4096 (array_object 8 28672 5 [1, 0, 2, 0, 3, 0, 4, 0, 5, 0])) 4096 = 5
   \<and> GetArrayData 8 4096 = 4112
   \<and> GetArrayLength 4 (place (\<lambda>a. 0) 4096 (array_object 4 28672 5 [1, 2, 3, 4, 5])) 4096 = 5
   \<and> GetArrayData 4 4096 = 4096 + 4 + 4"
proof -
  have wide: "object_at (place (\<lambda>a. 0) 4096 (array_object 8 28672 5 [1, 0, 2, 0, 3, 0, 4, 0, 5, 0]))
      4096 (array_object 8 28672 5 [1, 0, 2, 0, 3, 0, 4, 0, 5, 0])"
    by (rule object_at_place)
  have narrow: "object_at (place (\<lambda>a. 0) 4096 (array_object 4 28672 5 [1, 2, 3, 4, 5]))
      4096 (array_object 4 28672 5 [1, 2, 3, 4, 5])"
    by (rule object_at_place)
  from array_accessors [OF wide] array_accessors [OF narrow] show ?thesis
    by simp
qed

subsection \<open>Fault boundary\<close>

lemma after_entry_main:
  assumes "PalInit env" and "RtuDllMain env \<noteq> 0" and "RhpEnableConservativeStackReporting env \<noteq> 0"
    and "plat = Windows \<longrightarrow> RhpRegisterCoffModule env"
    and "plat = Apple \<longrightarrow> registeredModules img \<noteq> []"
  shows "after_entry (fst (main plat env img argc argv))
           = fst (try_managed_main env argc argv)
             @ (case snd (try_managed_main env argc argv) of Inl stop \<Rightarrow> [] | Inr r \<Rightarrow> [EvShutdown])"
    and "snd (main plat env img argc argv)
           = (case snd (try_managed_main env argc argv) of Inl stop \<Rightarrow> stop | Inr r \<Rightarrow> MainReturned r)"
  using assms
  by (auto simp add: main_def initialize_runtime_def register_coff_module_def deliver_modules_def
      shutdown_runtime_def vector_at_def vector_size_def after_entry_def
      split: prod.splits sum.splits)

text \<open>
  C4, as stated: on a caught fault the boundary prints a method name and a reason, both
  managed strings, with the string walk, and ends the process there. It does not: when
  managed code runs into \<open>RhpUniversalTransition\<close>, \<open>main\<close> prints a fixed line and
  the C string carried by the exception with \<open>printf\<close>, calls no \<open>putwchar\<close>, prints
  no reason, goes on to the shutdown step and returns \<open>-1\<close>; the process is not left
  through \<open>exit\<close>.
\<close>

theorem fault_boundary_counterexample:
  "main Linux (sample_env\<lparr>managed_Main := \<lambda>argc argv. managed_calling RhpUniversalTransition 0\<rparr>)
      (load_image Linux [4096]) 1 0
     = ([EvPalInit, EvRtuDllMain, EvRhpEnableConservativeStackReporting,
         EvInitializeModules [0, 4096, 0] 2, EvManagedMain 1 0,
         EvPrintf (''Call to an unimplemented runtime method; execution cannot continue.'' @ nl),
         EvPrintf (''Method: RhpUniversalTransition'' @ nl),
         EvShutdown], MainReturned (- 1))
   \<and> snd (main Linux (sample_env\<lparr>managed_Main := \<lambda>argc argv. managed_calling RhpUniversalTransition 0\<rparr>)
      (load_image Linux [4096]) 1 0) \<noteq> Exited (- 1)"
  by (simp add: run_defs sample_env_def load_image_def modules_a_def modules_z_def nullptr_def
      managed_calling_def RhpUniversalTransition_def and_then_def)

text \<open>
  C4, amended: after a successful bootstrap,
  \<^item> the handler around the managed entry point catches \<open>const char *\<close> only; on catching
    one it prints a fixed line and \<open>Method:\<close> with the C string that was thrown, using
    \<open>printf\<close>, then \<open>main\<close> runs the shutdown step and returns \<open>-1\<close>;
  \<^item> an exception of another type is not caught;
  \<^item> the method name and the reason, two managed strings, are printed with the string
    walk by \<open>__not_yet_implemented\<close>, which managed code calls and which ends the
    process with \<open>exit(-1)\<close>: nothing runs after it, not even the shutdown step.
\<close>

theorem fault_boundary_behaviour:
  assumes "PalInit env" and "RtuDllMain env \<noteq> 0" and "RhpEnableConservativeStackReporting env \<noteq> 0"
    and "plat = Windows \<longrightarrow> RhpRegisterCoffModule env"
    and "plat = Apple \<longrightarrow> registeredModules img \<noteq> []"
  shows "(managed_Main env argc argv = Raises (CString e) \<longrightarrow>
            after_entry (fst (main plat env img argc argv))
              = [EvPrintf (''Call to an unimplemented runtime method; execution cannot continue.'' @ nl),
                 EvPrintf (''Method: '' @ e @ nl), EvShutdown]
            \<and> snd (main plat env img argc argv) = MainReturned (- 1))
       \<and> (managed_Main env argc argv = Raises OtherException \<longrightarrow>
            after_entry (fst (main plat env img argc argv)) = []
            \<and> snd (main plat env img argc argv) = Terminated)
       \<and> (managed_Main env argc argv = NotYetImplemented m r
            \<and> object_at (heap_of env) m (string_object (pointer_size env) td ms)
            \<and> object_at (heap_of env) r (string_object (pointer_size env) td' rs)
            \<and> length ms < 2 ^ 31 \<and> length rs < 2 ^ 31 \<longrightarrow>
            after_entry (fst (main plat env img argc argv))
              = [EvPrintf (''ILCompiler failed generating code for this method; execution cannot continue.'' @ nl),
                 EvPrintf (''This is likely because of a feature that is not yet implemented in the compiler.'' @ nl),
                 EvPrintf ''Method: '']
                @ map EvPutwchar ms
                @ [EvPrintf (nl @ nl), EvPrintf ''Reason: '']
                @ map EvPutwchar rs
                @ [EvPrintf nl, EvExit (- 1)]
            \<and> snd (main plat env img argc argv) = Exited (- 1))"
proof (intro conjI impI)
  assume "managed_Main env argc argv = Raises (CString e)"
  then have t: "try_managed_main env argc argv
      = ([EvPrintf (''Call to an unimplemented runtime method; execution cannot continue.'' @ nl),
          EvPrintf (''Method: '' @ e @ nl)], Inr (- 1))"
    by (simp add: try_managed_main_def)
  show "after_entry (fst (main plat env img argc argv))
      = [EvPrintf (''Call to an unimplemented runtime method; execution cannot continue.'' @ nl),
         EvPrintf (''Method: '' @ e @ nl), EvShutdown]"
    by (simp add: after_entry_main(1) [OF assms] t)
  show "snd (main plat env img argc argv) = MainReturned (- 1)"
    by (simp add: after_entry_main(2) [OF assms] t)
next
  assume "managed_Main env argc argv = Raises OtherException"
  then have t: "try_managed_main env argc argv = ([], Inl Terminated)"
    by (simp add: try_managed_main_def)
  show "after_entry (fst (main plat env img argc argv)) = []"
    by (simp add: after_entry_main(1) [OF assms] t)
  show "snd (main plat env img argc argv) = Terminated"
    by (simp add: after_entry_main(2) [OF assms] t)
next
  assume nyi: "managed_Main env argc argv = NotYetImplemented m r
      \<and> object_at (heap_of env) m (string_object (pointer_size env) td ms)
      \<and> object_at (heap_of env) r (string_object (pointer_size env) td' rs)
      \<and> length ms < 2 ^ 31 \<and> length rs < 2 ^ 31"
  then have t: "try_managed_main env argc argv
      = (not_yet_implemented (pointer_size env) (heap_of env) m r, Inl (Exited (- 1)))"
    by (simp add: try_managed_main_def)
  from nyi have name: "PrintStringObject (pointer_size env) (heap_of env) m = map EvPutwchar ms"
    by (intro print_string_object [where td = td]) simp_all
  from nyi have reason: "PrintStringObject (pointer_size env) (heap_of env) r = map EvPutwchar rs"
    by (intro print_string_object [where td = td']) simp_all
  show "after_entry (fst (main plat env img argc argv))
      = [EvPrintf (''ILCompiler failed generating code for this method; execution cannot continue.'' @ nl),
         EvPrintf (''This is likely because of a feature that is not yet implemented in the compiler.'' @ nl),
         EvPrintf ''Method: '']
        @ map EvPutwchar ms
        @ [EvPrintf (nl @ nl), EvPrintf ''Reason: '']
        @ map EvPutwchar rs
        @ [EvPrintf nl, EvExit (- 1)]"
    by (simp add: after_entry_main(1) [OF assms] t not_yet_implemented_def name reason)
  show "snd (main plat env img argc argv) = Exited (- 1)"
    by (simp add: after_entry_main(2) [OF assms] t)
qed

theorem fault_boundary_behaviour_witness:
  "main Windows faulting_env (load_image Windows [4096]) 1 0
     = ([EvPalInit, EvRtuDllMain, EvRhpEnableConservativeStackReporting,
         EvRhpRegisterCoffModule 4096 4096 [Some GetRuntimeException, Some FailFast, None, None] 4,
         EvInitializeModules [0, 4096, 0] 2, EvManagedMain 1 0,
         EvPrintf (''Call to an unimplemented runtime method; execution cannot continue.'' @ nl),
         EvPrintf (''Method: RhGetCurrentThreadStackTrace'' @ nl),
         EvShutdown], MainReturned (- 1))
   \<and> after_entry (fst (main Linux reporting_env (load_image Linux [4096]) 1 0))
     = [EvPrintf (''ILCompiler failed generating code for this method; execution cannot continue.'' @ nl),
        EvPrintf (''This is likely because of a feature that is not yet implemented in the compiler.'' @ nl),
        EvPrintf ''Method: '', EvPutwchar 0x4D, EvPrintf (nl @ nl), EvPrintf ''Reason: '',
        EvPutwchar 0x52, EvPrintf nl, EvExit (- 1)]
   \<and> snd (main Linux reporting_env (load_image Linux [4096]) 1 0) = Exited (- 1)"
proof -
  have f: "PalInit faulting_env" "RtuDllMain faulting_env \<noteq> 0"
    "RhpEnableConservativeStackReporting faulting_env \<noteq> 0"
    "Windows = Windows \<longrightarrow> RhpRegisterCoffModule faulting_env"
    "Windows = Apple \<longrightarrow> registeredModules (load_image Windows [4096]) \<noteq> []"
    by (simp_all add: faulting_env_def sample_env_def)
  have raised: "managed_Main faulting_env 1 0 = Raises (CString ''RhGetCurrentThreadStackTrace'')"
    by (simp add: faulting_env_def managed_calling_def RhGetCurrentThreadStackTrace_def and_then_def)
  have one: "main Windows faulting_env (load_image Windows [4096]) 1 0
     = ([EvPalInit, EvRtuDllMain, EvRhpEnableConservativeStackReporting,
         EvRhpRegisterCoffModule 4096 4096 [Some GetRuntimeException, Some FailFast, None, None] 4,
         EvInitializeModules [0, 4096, 0] 2, EvManagedMain 1 0,
         EvPrintf (''Call to an unimplemented runtime method; execution cannot continue.'' @ nl),
         EvPrintf (''Method: RhGetCurrentThreadStackTrace'' @ nl),
         EvShutdown], MainReturned (- 1))"
    using fault_boundary_behaviour [OF f, of 1 0 "''RhGetCurrentThreadStackTrace''"] raised
    by (simp add: run_defs faulting_env_def sample_env_def load_image_def modules_a_def
        modules_z_def nullptr_def c_classlibFunctions_def)
  have r: "PalInit reporting_env" "RtuDllMain reporting_env \<noteq> 0"
    "RhpEnableConservativeStackReporting reporting_env \<noteq> 0"
    "Linux = Windows \<longrightarrow> RhpRegisterCoffModule reporting_env"
    "Linux = Apple \<longrightarrow> registeredModules (load_image Linux [4096]) \<noteq> []"
    by (simp_all add: reporting_env_def sample_env_def)
  have called: "managed_Main reporting_env 1 0 = NotYetImplemented 4096 8192"
    by (simp add: reporting_env_def)
  have "object_at (place (\<lambda>a. 0) 4096 (string_object 8 28672 [0x4D])) 4096
      (string_object 8 28672 [0x4D])"
    by (rule object_at_place)
  then have "object_at (place (place (\<lambda>a. 0) 4096 (string_object 8 28672 [0x4D])) 8192
      (string_object 8 28672 [0x52])) 4096 (string_object 8 28672 [0x4D])"
    by (rule object_at_place_other) (simp add: string_object_def)
  then have name: "object_at (heap_of reporting_env) 4096
      (string_object (pointer_size reporting_env) 28672 [0x4D])"
    by (simp add: reporting_env_def sample_env_def)
  have "object_at (place (place (\<lambda>a. 0) 4096 (string_object 8 28672 [0x4D])) 8192
      (string_object 8 28672 [0x52])) 8192 (string_object 8 28672 [0x52])"
    by (rule object_at_place)
  then have reason: "object_at (heap_of reporting_env) 8192
      (string_object (pointer_size reporting_env) 28672 [0x52])"
    by (simp add: reporting_env_def sample_env_def)
  have two: "after_entry (fst (main Linux reporting_env (load_image Linux [4096]) 1 0))
     = [EvPrintf (''ILCompiler failed generating code for this method; execution cannot continue.'' @ nl),
        EvPrintf (''This is likely because of a feature that is not yet implemented in the compiler.'' @ nl),
        EvPrintf ''Method: '', EvPutwchar 0x4D, EvPrintf (nl @ nl), EvPrintf ''Reason: '',
        EvPutwchar 0x52, EvPrintf nl, EvExit (- 1)]
   \<and> snd (main Linux reporting_env (load_image Linux [4096]) 1 0) = Exited (- 1)"
    using fault_boundary_behaviour [OF r, of 1 0 _ 4096 8192 28672 "[0x4D]" 28672 "[0x52]"]
      called name reason
    by simp
  from one two show ?thesis
    by simp
qed

end
